theory Spec2Isabelle
  imports Main
begin

section \<open>The WebSocket session relay of \<open>server/routes.ts\<close>\<close>

text \<open>
  The relay is the \<open>wss.on('connection', ...)\<close> block of \<open>registerRoutes\<close>: one
  \<open>message\<close> handler and one \<open>close\<close> handler per socket, sharing the table
  \<open>sessionConnections\<close>. The model follows the code statement by statement.

  \<^item> A JavaScript \<open>number\<close> (session and user identifiers, timestamps) is an \<open>int\<close>:
    the relay only compares numbers for equality, tests them for truthiness (zero is
    falsy, \<open>undefined\<close> is falsy) and uses them as object keys.
  \<^item> A \<open>WebSocket\<close> object is identified by a handle of type \<open>sock\<close>; \<open>===\<close> on
    sockets is equality of handles.
  \<^item> The result of \<open>JSON.parse\<close> is the input of the model: either the parse threw, or
    it produced a JSON value. An object is the list of its properties, looked up by key
    with \<open>map_of\<close>.
  \<^item> \<open>socket.send\<close> appends to the log \<open>sent\<close> of the state; \<open>console.error\<close> is
    not modelled.
\<close>

subsection \<open>Frames and their validation (\<open>shared/schema.ts\<close>)\<close>

type_synonym sock = nat

datatype json =
    JNull
  | JBool bool
  | JNum int
  | JStr string
  | JArr "json list"
  | JObj "(string \<times> json) list"

datatype raw_frame = Unparseable | Parsed json

datatype path_elem = Key string | Idx nat

type_synonym zod_issue = "path_elem list"

datatype js_error = SyntaxError | ZodError "zod_issue list" | OtherError

datatype action = Play | Pause | Seek

datatype ws_message =
    VideoSyncMessage int action "int option" "int option"
  | ChatMessage int int string string int
  | SessionUpdateMessage int "(int \<times> string) list"

datatype frame =
    Relay ws_message
  | ErrorFrame string "zod_issue list"

text \<open>
  The zod combinators the schemas use. A validator gets the path of the field and the
  value found under the key (\<open>None\<close> when the key is absent, JavaScript's
  \<open>undefined\<close>) and returns the parsed value or the paths of the offending fields.
  An object schema strips unknown keys and reports the issues of all its fields.
\<close>

definition z_number :: "zod_issue \<Rightarrow> json option \<Rightarrow> zod_issue list + int" where
  "z_number p v = (case v of Some (JNum n) \<Rightarrow> Inr n | _ \<Rightarrow> Inl [p])"

definition z_string :: "zod_issue \<Rightarrow> json option \<Rightarrow> zod_issue list + string" where
  "z_string p v = (case v of Some (JStr x) \<Rightarrow> Inr x | _ \<Rightarrow> Inl [p])"

definition z_number_optional :: "zod_issue \<Rightarrow> json option \<Rightarrow> zod_issue list + int option" where
  "z_number_optional p v =
     (case v of None \<Rightarrow> Inr None | Some (JNum n) \<Rightarrow> Inr (Some n) | _ \<Rightarrow> Inl [p])"

definition z_literal :: "string \<Rightarrow> zod_issue \<Rightarrow> json option \<Rightarrow> zod_issue list + unit" where
  "z_literal lit p v =
     (case v of Some (JStr x) \<Rightarrow> (if x = lit then Inr () else Inl [p]) | _ \<Rightarrow> Inl [p])"

definition z_action :: "zod_issue \<Rightarrow> json option \<Rightarrow> zod_issue list + action" where
  "z_action p v =
     (case v of
        Some (JStr x) \<Rightarrow>
          (if x = ''play'' then Inr Play
           else if x = ''pause'' then Inr Pause
           else if x = ''seek'' then Inr Seek
           else Inl [p])
      | _ \<Rightarrow> Inl [p])"

definition issues :: "zod_issue list + 'a \<Rightarrow> zod_issue list" where
  "issues r = (case r of Inl is \<Rightarrow> is | Inr _ \<Rightarrow> [])"

definition videoSyncMessageSchema :: "json \<Rightarrow> zod_issue list + ws_message" where
  "videoSyncMessageSchema j =
     (case j of
        JObj kvs \<Rightarrow>
          (let t = z_literal ''videoSync'' [Key ''type''] (map_of kvs ''type'');
               sid = z_number [Key ''sessionId''] (map_of kvs ''sessionId'');
               a = z_action [Key ''action''] (map_of kvs ''action'');
               ts = z_number_optional [Key ''timestamp''] (map_of kvs ''timestamp'');
               ct = z_number_optional [Key ''currentTime''] (map_of kvs ''currentTime'')
           in case (t, sid, a, ts, ct) of
                (Inr _, Inr sid', Inr a', Inr ts', Inr ct') \<Rightarrow>
                  Inr (VideoSyncMessage sid' a' ts' ct')
              | _ \<Rightarrow> Inl (issues t @ issues sid @ issues a @ issues ts @ issues ct))
      | _ \<Rightarrow> Inl [[]])"

definition chatMessageSchema :: "json \<Rightarrow> zod_issue list + ws_message" where
  "chatMessageSchema j =
     (case j of
        JObj kvs \<Rightarrow>
          (let t = z_literal ''chat'' [Key ''type''] (map_of kvs ''type'');
               sid = z_number [Key ''sessionId''] (map_of kvs ''sessionId'');
               uid = z_number [Key ''userId''] (map_of kvs ''userId'');
               un = z_string [Key ''username''] (map_of kvs ''username'');
               msg = z_string [Key ''message''] (map_of kvs ''message'');
               ts = z_number [Key ''timestamp''] (map_of kvs ''timestamp'')
           in case (t, sid, uid, un, msg, ts) of
                (Inr _, Inr sid', Inr uid', Inr un', Inr msg', Inr ts') \<Rightarrow>
                  Inr (ChatMessage sid' uid' un' msg' ts')
              | _ \<Rightarrow>
                  Inl (issues t @ issues sid @ issues uid @ issues un @ issues msg @ issues ts))
      | _ \<Rightarrow> Inl [[]])"

definition z_participant :: "zod_issue \<Rightarrow> json \<Rightarrow> zod_issue list + (int \<times> string)" where
  "z_participant p j =
     (case j of
        JObj kvs \<Rightarrow>
          (let uid = z_number (p @ [Key ''userId'']) (map_of kvs ''userId'');
               un = z_string (p @ [Key ''username'']) (map_of kvs ''username'')
           in case (uid, un) of
                (Inr uid', Inr un') \<Rightarrow> Inr (uid', un')
              | _ \<Rightarrow> Inl (issues uid @ issues un))
      | _ \<Rightarrow> Inl [p])"

fun z_participants :: "zod_issue \<Rightarrow> nat \<Rightarrow> json list \<Rightarrow> zod_issue list + (int \<times> string) list" where
  "z_participants p i [] = Inr []"
| "z_participants p i (j # js) =
     (case (z_participant (p @ [Idx i]) j, z_participants p (Suc i) js) of
        (Inr x, Inr xs) \<Rightarrow> Inr (x # xs)
      | (r, rs) \<Rightarrow> Inl (issues r @ issues rs))"

definition z_participant_array :: "zod_issue \<Rightarrow> json option \<Rightarrow> zod_issue list + (int \<times> string) list" where
  "z_participant_array p v =
     (case v of Some (JArr js) \<Rightarrow> z_participants p 0 js | _ \<Rightarrow> Inl [p])"

definition sessionUpdateSchema :: "json \<Rightarrow> zod_issue list + ws_message" where
  "sessionUpdateSchema j =
     (case j of
        JObj kvs \<Rightarrow>
          (let t = z_literal ''sessionUpdate'' [Key ''type''] (map_of kvs ''type'');
               sid = z_number [Key ''sessionId''] (map_of kvs ''sessionId'');
               ps = z_participant_array [Key ''participants''] (map_of kvs ''participants'')
           in case (t, sid, ps) of
                (Inr _, Inr sid', Inr ps') \<Rightarrow> Inr (SessionUpdateMessage sid' ps')
              | _ \<Rightarrow> Inl (issues t @ issues sid @ issues ps))
      | _ \<Rightarrow> Inl [[]])"

text \<open>
  \<open>z.discriminatedUnion("type", [...])\<close>: the input must be an object whose \<open>type\<close>
  names one of the three schemas, which then validates the whole object.
\<close>

definition wsMessageSchema :: "json \<Rightarrow> zod_issue list + ws_message" where
  "wsMessageSchema j =
     (case j of
        JObj kvs \<Rightarrow>
          (case map_of kvs ''type'' of
             Some (JStr t) \<Rightarrow>
               (if t = ''videoSync'' then videoSyncMessageSchema j
                else if t = ''chat'' then chatMessageSchema j
                else if t = ''sessionUpdate'' then sessionUpdateSchema j
                else Inl [[Key ''type'']])
           | _ \<Rightarrow> Inl [[Key ''type'']])
      | _ \<Rightarrow> Inl [[]])"

subsection \<open>The relay's state\<close>

record connection =
  userId :: int
  socket :: sock

text \<open>
  \<open>handler_vars\<close> are the variables \<open>let userId\<close> and \<open>let sessionId\<close> that the two
  handlers of one socket close over; \<open>None\<close> is \<open>undefined\<close>.
\<close>

record handler_vars =
  userId_var :: "int option"
  sessionId_var :: "int option"

record relay =
  sessionConnections :: "int \<rightharpoonup> connection list"
  vars :: "sock \<Rightarrow> handler_vars"
  readyOpen :: "sock \<Rightarrow> bool"
  sent :: "(sock \<times> frame) list"

definition init :: relay where
  "init = \<lparr> sessionConnections = Map.empty,
            vars = (\<lambda>_. \<lparr> userId_var = None, sessionId_var = None \<rparr>),
            readyOpen = (\<lambda>_. False),
            sent = [] \<rparr>"

definition peers :: "relay \<Rightarrow> int \<Rightarrow> connection list" where
  "peers s sid = (case sessionConnections s sid of None \<Rightarrow> [] | Some cs \<Rightarrow> cs)"

subsection \<open>The \<open>message\<close> handler\<close>

text \<open>
  The loop \<open>for (const connection of sessionConnections[sessionId])\<close> with its guard:
  \<open>p\<close> is the part of the guard that differs between the cases, the test of
  \<open>readyState\<close> is common to all.
\<close>

fun send_each :: "(sock \<Rightarrow> bool) \<Rightarrow> (connection \<Rightarrow> bool) \<Rightarrow> frame \<Rightarrow> connection list \<Rightarrow> (sock \<times> frame) list" where
  "send_each opn p f [] = []"
| "send_each opn p f (c # cs) =
     (if p c \<and> opn (socket c) then (socket c, f) # send_each opn p f cs
      else send_each opn p f cs)"

definition broadcast :: "(connection \<Rightarrow> bool) \<Rightarrow> frame \<Rightarrow> int \<Rightarrow> relay \<Rightarrow> relay" where
  "broadcast p f sid s =
     (case sessionConnections s sid of
        None \<Rightarrow> s
      | Some cs \<Rightarrow> s\<lparr> sent := sent s @ send_each (readyOpen s) p f cs \<rparr>)"

definition set_sessionId :: "sock \<Rightarrow> int \<Rightarrow> relay \<Rightarrow> relay" where
  "set_sessionId ws sid s = s\<lparr> vars := (vars s)(ws := (vars s ws)\<lparr> sessionId_var := Some sid \<rparr>) \<rparr>"

definition set_userId :: "sock \<Rightarrow> int \<Rightarrow> relay \<Rightarrow> relay" where
  "set_userId ws uid s = s\<lparr> vars := (vars s)(ws := (vars s ws)\<lparr> userId_var := Some uid \<rparr>) \<rparr>"

text \<open>
  The handler is an \<open>async\<close> function. It runs without interruption up to
  \<open>await storage.createMessage(...)\<close> in the chat case, where it is suspended
  holding \<open>chatMsg\<close>; the other cases run to their end. \<open>dispatch\<close> is the
  \<open>switch\<close> up to that point. (The second \<open>parse\<close> of each case is applied to a
  value the same schema has just produced and returns it unchanged.)
\<close>

datatype outcome = Done relay | Awaiting ws_message relay

fun state_of :: "outcome \<Rightarrow> relay" where
  "state_of (Done s) = s"
| "state_of (Awaiting chatMsg s) = s"

fun dispatch :: "sock \<Rightarrow> ws_message \<Rightarrow> relay \<Rightarrow> outcome" where
  "dispatch ws (VideoSyncMessage sid a ts ct) s =
     (let s1 = set_sessionId ws sid s
      in Done (broadcast (\<lambda>c. Some (userId c) \<noteq> userId_var (vars s1 ws))
                 (Relay (VideoSyncMessage sid a ts ct)) sid s1))"
| "dispatch ws (ChatMessage sid uid un msg ts) s =
     Awaiting (ChatMessage sid uid un msg ts) (set_userId ws uid (set_sessionId ws sid s))"
| "dispatch ws (SessionUpdateMessage sid ps) s =
     (let s1 = set_sessionId ws sid s
      in Done (broadcast (\<lambda>c. True) (Relay (SessionUpdateMessage sid ps)) sid s1))"

text \<open>The block under \<open>// Register connection if not already done\<close>.\<close>

definition register_connection :: "sock \<Rightarrow> relay \<Rightarrow> relay" where
  "register_connection ws s =
     (case (userId_var (vars s ws), sessionId_var (vars s ws)) of
        (Some uid, Some sid) \<Rightarrow>
          (if uid \<noteq> 0 \<and> sid \<noteq> 0 \<and>
              \<not> (case sessionConnections s sid of
                    None \<Rightarrow> False
                  | Some cs \<Rightarrow> list_ex (\<lambda>conn. userId conn = uid) cs)
           then s\<lparr> sessionConnections := (sessionConnections s)
                      (sid \<mapsto> peers s sid @ [\<lparr> userId = uid, socket = ws \<rparr>]) \<rparr>
           else s)
      | _ \<Rightarrow> s)"

text \<open>The \<open>catch\<close> block: only a \<open>ZodError\<close> is answered.\<close>

definition catch_block :: "sock \<Rightarrow> js_error \<Rightarrow> relay \<Rightarrow> relay" where
  "catch_block ws e s =
     (case e of
        ZodError is \<Rightarrow> s\<lparr> sent := sent s @ [(ws, ErrorFrame ''Invalid message format'' is)] \<rparr>
      | _ \<Rightarrow> s)"

text \<open>
  \<open>receive\<close> is the handler from the arrival of a frame to its end or to the
  \<open>await\<close>. \<open>resume\<close> is the rest of the chat case, run when the store has settled:
  \<open>store\<close> is \<open>None\<close> when \<open>createMessage\<close> resolved and \<open>Some e\<close> when it
  threw \<open>e\<close>. The fan-out and the registration block read the variables
  \<open>sessionId\<close> and \<open>userId\<close> as they are at that moment.
\<close>

definition receive :: "sock \<Rightarrow> raw_frame \<Rightarrow> relay \<Rightarrow> outcome" where
  "receive ws raw s =
     (case raw of
        Unparseable \<Rightarrow> Done (catch_block ws SyntaxError s)
      | Parsed j \<Rightarrow>
          (case wsMessageSchema j of
             Inl is \<Rightarrow> Done (catch_block ws (ZodError is) s)
           | Inr m \<Rightarrow>
               (case dispatch ws m s of
                  Done s' \<Rightarrow> Done (register_connection ws s')
                | Awaiting chatMsg s' \<Rightarrow> Awaiting chatMsg s')))"

definition resume :: "sock \<Rightarrow> ws_message \<Rightarrow> js_error option \<Rightarrow> relay \<Rightarrow> relay" where
  "resume ws chatMsg store s =
     (case store of
        Some e \<Rightarrow> catch_block ws e s
      | None \<Rightarrow>
          register_connection ws
            (case sessionId_var (vars s ws) of
               None \<Rightarrow> s
             | Some sid \<Rightarrow> broadcast (\<lambda>c. True) (Relay chatMsg) sid s))"

text \<open>The whole handler when nothing else happens while it waits for the store.\<close>

definition on_message :: "sock \<Rightarrow> raw_frame \<Rightarrow> js_error option \<Rightarrow> relay \<Rightarrow> relay" where
  "on_message ws raw store s =
     (case receive ws raw s of
        Done s' \<Rightarrow> s'
      | Awaiting chatMsg s' \<Rightarrow> resume ws chatMsg store s')"

subsection \<open>The \<open>close\<close> handler\<close>

definition on_close :: "sock \<Rightarrow> relay \<Rightarrow> relay" where
  "on_close ws s =
     (case (sessionId_var (vars s ws), userId_var (vars s ws)) of
        (Some sid, Some uid) \<Rightarrow>
          (if sid \<noteq> 0 \<and> uid \<noteq> 0 then
             (case sessionConnections s sid of
                None \<Rightarrow> s
              | Some cs \<Rightarrow>
                  (let remaining = filter (\<lambda>conn. \<not> (userId conn = uid \<and> socket conn = ws)) cs
                   in if length remaining = 0
                      then s\<lparr> sessionConnections := (sessionConnections s)(sid := None) \<rparr>
                      else
                        (let remainingUsers = map (\<lambda>conn. (userId conn, ''User'')) remaining;
                             s1 = s\<lparr> sessionConnections := (sessionConnections s)(sid \<mapsto> remaining) \<rparr>
                         in broadcast (\<lambda>c. True)
                              (Relay (SessionUpdateMessage sid remainingUsers)) sid s1)))
           else s)
      | _ \<Rightarrow> s)"

subsection \<open>Events and runs\<close>

text \<open>
  The event loop delivers one event at a time: a frame arrives (\<open>Message\<close>), the store
  settles for a suspended chat handler (\<open>Settled\<close>), a socket closes, or the transport
  changes a socket's \<open>readyState\<close>; the \<open>ws\<close> library sets it to \<open>CLOSED\<close> before
  it emits \<open>close\<close>. Between a \<open>Message\<close> and its \<open>Settled\<close> any other events can
  take place. A run is any list of events, so the runs include every schedule of the
  event loop.
\<close>

datatype event =
    Message sock raw_frame
  | Settled sock ws_message "js_error option"
  | Close sock
  | ReadyState sock bool

fun step :: "event \<Rightarrow> relay \<Rightarrow> relay" where
  "step (Message ws raw) s = state_of (receive ws raw s)"
| "step (Settled ws chatMsg store) s = resume ws chatMsg store s"
| "step (Close ws) s = on_close ws (s\<lparr> readyOpen := (readyOpen s)(ws := False) \<rparr>)"
| "step (ReadyState ws b) s = s\<lparr> readyOpen := (readyOpen s)(ws := b) \<rparr>"

fun run :: "event list \<Rightarrow> relay \<Rightarrow> relay" where
  "run [] s = s"
| "run (e # es) s = run es (step e s)"

subsection \<open>Observations and example inputs\<close>

text \<open>
  \<open>delivered s s'\<close> are the \<open>send\<close> calls made on the way from \<open>s\<close> to \<open>s'\<close>.
  \<open>registry_inv\<close> is the shape every reachable table has: no session is mapped to an
  empty array, and no user identifier occurs twice in one session's array.
\<close>

definition delivered :: "relay \<Rightarrow> relay \<Rightarrow> (sock \<times> frame) list" where
  "delivered s s' = drop (length (sent s)) (sent s')"

definition registry_inv :: "relay \<Rightarrow> bool" where
  "registry_inv s =
     (\<forall>sid. sessionConnections s sid \<noteq> Some [] \<and> distinct (map userId (peers s sid)))"

definition is_videoSync :: "raw_frame \<Rightarrow> bool" where
  "is_videoSync raw =
     (case raw of
        Unparseable \<Rightarrow> False
      | Parsed j \<Rightarrow>
          (case wsMessageSchema j of
             Inr (VideoSyncMessage sid a ts ct) \<Rightarrow> True
           | _ \<Rightarrow> False))"

fun sends_only_videoSync :: "sock \<Rightarrow> event list \<Rightarrow> bool" where
  "sends_only_videoSync ws [] = True"
| "sends_only_videoSync ws (e # es) =
     ((case e of
         Message w raw \<Rightarrow> w = ws \<longrightarrow> is_videoSync raw
       | Settled w chatMsg store \<Rightarrow> w \<noteq> ws
       | _ \<Rightarrow> True)
      \<and> sends_only_videoSync ws es)"

definition unbound :: "sock \<Rightarrow> relay \<Rightarrow> bool" where
  "unbound ws s =
     (userId_var (vars s ws) = None
      \<and> (\<forall>sid. ws \<notin> socket ` set (peers s sid))
      \<and> ws \<notin> fst ` set (sent s))"

definition example_chat :: "int \<Rightarrow> int \<Rightarrow> json" where
  "example_chat sid uid =
     JObj [(''type'', JStr ''chat''), (''sessionId'', JNum sid), (''userId'', JNum uid),
           (''username'', JStr ''ann''), (''message'', JStr ''hi''), (''timestamp'', JNum 7)]"

definition example_chat_no_message :: "(string \<times> json) list" where
  "example_chat_no_message =
     [(''type'', JStr ''chat''), (''sessionId'', JNum 42), (''userId'', JNum 1),
      (''username'', JStr ''ann''), (''timestamp'', JNum 7)]"

definition example_videoSync :: "int \<Rightarrow> json" where
  "example_videoSync sid =
     JObj [(''type'', JStr ''videoSync''), (''sessionId'', JNum sid), (''action'', JStr ''play'')]"

definition example_sessionUpdate :: "int \<Rightarrow> json list \<Rightarrow> json" where
  "example_sessionUpdate sid ps =
     JObj [(''type'', JStr ''sessionUpdate''), (''sessionId'', JNum sid), (''participants'', JArr ps)]"

definition example_participant :: json where
  "example_participant = JObj [(''userId'', JNum 9), (''username'', JStr ''eve'')]"

text \<open>A chat frame arrives on \<open>ws\<close> and the store resolves before anything else happens.\<close>

definition chat_stored :: "sock \<Rightarrow> int \<Rightarrow> int \<Rightarrow> event list" where
  "chat_stored ws sid uid =
     [Message ws (Parsed (example_chat sid uid)),
      Settled ws (ChatMessage sid uid ''ann'' ''hi'' 7) None]"

definition two_users :: relay where
  "two_users = run ([ReadyState 1 True, ReadyState 2 True]
                    @ chat_stored 1 42 1 @ chat_stored 2 42 2) init"

definition same_user_twice :: relay where
  "same_user_twice = run ([ReadyState 1 True, ReadyState 2 True]
                          @ chat_stored 1 42 1 @ chat_stored 2 42 1) init"

definition one_user :: relay where
  "one_user = run ([ReadyState 1 True] @ chat_stored 1 42 1) init"


definition two_identities_and_guest :: relay where
  "two_identities_and_guest =
     run ([ReadyState 1 True, ReadyState 3 True]
          @ chat_stored 1 42 1 @ chat_stored 1 42 2 @ chat_stored 3 42 3) init"

definition rebinding_run :: "event list" where
  "rebinding_run = chat_stored 1 42 1 @ [Message 1 (Parsed (example_videoSync 43))]"

text \<open>
  Socket 3 only sends playback frames, one of them while the handler of socket 1 waits
  for the store.
\<close>

definition watcher_run :: "event list" where
  "watcher_run = [ReadyState 1 True, ReadyState 3 True,
                  Message 1 (Parsed (example_chat 42 1)),
                  Message 3 (Parsed (example_videoSync 42)),
                  Settled 1 (ChatMessage 42 1 ''ann'' ''hi'' 7) None,
                  Message 3 (Parsed (example_videoSync 42))]
                 @ chat_stored 1 42 1
                 @ [Message 1 (Parsed (example_videoSync 42)), Close 1]"

section \<open>Auxiliary facts\<close>

subsection \<open>Field-wise behaviour of the building blocks\<close>

lemma send_each_map_filter:
  "send_each opn p f cs = map (\<lambda>c. (socket c, f)) (filter (\<lambda>c. p c \<and> opn (socket c)) cs)"
  by (induction cs) auto

lemma set_sessionId_simps [simp]:
  "sessionConnections (set_sessionId ws sid s) = sessionConnections s"
  "readyOpen (set_sessionId ws sid s) = readyOpen s"
  "sent (set_sessionId ws sid s) = sent s"
  "vars (set_sessionId ws sid s) = (vars s)(ws := (vars s ws)\<lparr> sessionId_var := Some sid \<rparr>)"
  by (simp_all add: set_sessionId_def)

lemma set_userId_simps [simp]:
  "sessionConnections (set_userId ws uid s) = sessionConnections s"
  "readyOpen (set_userId ws uid s) = readyOpen s"
  "sent (set_userId ws uid s) = sent s"
  "vars (set_userId ws uid s) = (vars s)(ws := (vars s ws)\<lparr> userId_var := Some uid \<rparr>)"
  by (simp_all add: set_userId_def)

lemma peers_set_simps [simp]:
  "peers (set_sessionId ws sid s) = peers s"
  "peers (set_userId ws uid s) = peers s"
  by (simp_all add: peers_def fun_eq_iff)

lemma broadcast_simps [simp]:
  "sessionConnections (broadcast p f sid s) = sessionConnections s"
  "readyOpen (broadcast p f sid s) = readyOpen s"
  "vars (broadcast p f sid s) = vars s"
  "sent (broadcast p f sid s) = sent s @ send_each (readyOpen s) p f (peers s sid)"
  by (simp_all add: broadcast_def peers_def split: option.splits)

lemma peers_broadcast [simp]: "peers (broadcast p f sid s) = peers s"
  by (simp add: peers_def fun_eq_iff)

lemma register_connection_simps [simp]:
  "readyOpen (register_connection ws s) = readyOpen s"
  "vars (register_connection ws s) = vars s"
  "sent (register_connection ws s) = sent s"
  by (simp_all add: register_connection_def split: option.splits)

lemma catch_block_simps [simp]:
  "sessionConnections (catch_block ws e s) = sessionConnections s"
  "readyOpen (catch_block ws e s) = readyOpen s"
  "vars (catch_block ws e s) = vars s"
  by (simp_all add: catch_block_def split: js_error.splits)

lemma peers_upd [simp]:
  "peers (s\<lparr> sessionConnections := (sessionConnections s)(sid \<mapsto> cs) \<rparr>) k = (if k = sid then cs else peers s k)"
  "peers (s\<lparr> sessionConnections := (sessionConnections s)(sid := None) \<rparr>) k = (if k = sid then [] else peers s k)"
  by (simp_all add: peers_def)

lemma peers_other_upd [simp]:
  "peers (s\<lparr> readyOpen := r \<rparr>) = peers s"
  "peers (s\<lparr> sent := x \<rparr>) = peers s"
  "peers (s\<lparr> vars := v \<rparr>) = peers s"
  by (simp_all add: peers_def fun_eq_iff)

subsection \<open>The handler on each kind of frame\<close>

lemma receive_unparseable: "receive ws Unparseable s = Done s"
  by (simp add: receive_def catch_block_def)

lemma receive_invalid:
  "wsMessageSchema j = Inl iss \<Longrightarrow>
   receive ws (Parsed j) s =
     Done (s\<lparr> sent := sent s @ [(ws, ErrorFrame ''Invalid message format'' iss)] \<rparr>)"
  by (simp add: receive_def catch_block_def)

lemma receive_chat:
  "wsMessageSchema j = Inr (ChatMessage sid uid un msg ts) \<Longrightarrow>
   receive ws (Parsed j) s =
     Awaiting (ChatMessage sid uid un msg ts) (set_userId ws uid (set_sessionId ws sid s))"
  by (simp add: receive_def)

lemma receive_videoSync:
  "wsMessageSchema j = Inr (VideoSyncMessage sid a ts ct) \<Longrightarrow>
   receive ws (Parsed j) s =
     Done (register_connection ws
       (broadcast (\<lambda>c. Some (userId c) \<noteq> userId_var (vars s ws))
          (Relay (VideoSyncMessage sid a ts ct)) sid (set_sessionId ws sid s)))"
  by (simp add: receive_def)

lemma receive_sessionUpdate:
  "wsMessageSchema j = Inr (SessionUpdateMessage sid ps) \<Longrightarrow>
   receive ws (Parsed j) s =
     Done (register_connection ws
       (broadcast (\<lambda>c. True) (Relay (SessionUpdateMessage sid ps)) sid (set_sessionId ws sid s)))"
  by (simp add: receive_def)

lemma receive_cases [case_names unanswered answered awaiting relayed]:
  obtains "receive ws raw s = Done s"
  | iss where "receive ws raw s =
        Done (s\<lparr> sent := sent s @ [(ws, ErrorFrame ''Invalid message format'' iss)] \<rparr>)"
  | sid uid un msg ts where "receive ws raw s =
        Awaiting (ChatMessage sid uid un msg ts) (set_userId ws uid (set_sessionId ws sid s))"
  | p f sid where "receive ws raw s =
        Done (register_connection ws (broadcast p f sid (set_sessionId ws sid s)))"
proof (cases raw)
  case Unparseable
  then show ?thesis using that(1) by (simp add: receive_unparseable)
next
  case (Parsed j)
  show ?thesis
  proof (cases "wsMessageSchema j")
    case (Inl iss)
    then show ?thesis using that(2) Parsed by (simp add: receive_invalid)
  next
    case (Inr m)
    then show ?thesis
      using Parsed that(3) that(4) receive_chat [of j _ _ _ _ _ ws s]
        receive_videoSync [of j _ _ _ _ ws s] receive_sessionUpdate [of j _ _ ws s]
      by (cases m) simp_all
  qed
qed

lemma resume_stored:
  "sessionId_var (vars s ws) = Some sid \<Longrightarrow>
   resume ws chatMsg None s = register_connection ws (broadcast (\<lambda>c. True) (Relay chatMsg) sid s)"
  by (simp add: resume_def)

lemma resume_failed: "resume ws chatMsg (Some e) s = catch_block ws e s"
  by (simp add: resume_def)

lemma resume_cases [case_names failed unbound stored]:
  obtains e where "resume ws chatMsg store s = catch_block ws e s"
  | "resume ws chatMsg store s = register_connection ws s"
  | sid where "resume ws chatMsg store s =
        register_connection ws (broadcast (\<lambda>c. True) (Relay chatMsg) sid s)"
  by (cases store; cases "sessionId_var (vars s ws)") (simp_all add: resume_def)

lemma on_message_chat_stored:
  "wsMessageSchema j = Inr (ChatMessage sid uid un msg ts) \<Longrightarrow>
   on_message ws (Parsed j) None s =
     register_connection ws
       (broadcast (\<lambda>c. True) (Relay (ChatMessage sid uid un msg ts)) sid
          (set_userId ws uid (set_sessionId ws sid s)))"
  by (simp add: on_message_def receive_chat resume_def)

lemma on_message_chat_failed:
  "wsMessageSchema j = Inr (ChatMessage sid uid un msg ts) \<Longrightarrow>
   on_message ws (Parsed j) (Some e) s =
     catch_block ws e (set_userId ws uid (set_sessionId ws sid s))"
  by (simp add: on_message_def receive_chat resume_def)

lemma on_message_videoSync:
  "wsMessageSchema j = Inr (VideoSyncMessage sid a ts ct) \<Longrightarrow>
   on_message ws (Parsed j) store s =
     register_connection ws
       (broadcast (\<lambda>c. Some (userId c) \<noteq> userId_var (vars s ws))
          (Relay (VideoSyncMessage sid a ts ct)) sid (set_sessionId ws sid s))"
  by (simp add: on_message_def receive_videoSync)

lemma on_message_invalid:
  "wsMessageSchema j = Inl iss \<Longrightarrow>
   on_message ws (Parsed j) store s =
     s\<lparr> sent := sent s @ [(ws, ErrorFrame ''Invalid message format'' iss)] \<rparr>"
  by (simp add: on_message_def receive_invalid)

lemma on_message_unparseable: "on_message ws Unparseable store s = s"
  by (simp add: on_message_def receive_unparseable)

lemma example_chat_valid [simp]:
  "wsMessageSchema (example_chat sid uid) = Inr (ChatMessage sid uid ''ann'' ''hi'' 7)"
  by (simp add: example_chat_def wsMessageSchema_def chatMessageSchema_def z_literal_def
        z_number_def z_string_def)

lemma example_videoSync_valid [simp]:
  "wsMessageSchema (example_videoSync sid) = Inr (VideoSyncMessage sid Play None None)"
  by (simp add: example_videoSync_def wsMessageSchema_def videoSyncMessageSchema_def z_literal_def
        z_number_def z_action_def z_number_optional_def)

lemma example_sessionUpdate_valid [simp]:
  "wsMessageSchema (example_sessionUpdate sid []) = Inr (SessionUpdateMessage sid [])"
  "wsMessageSchema (example_sessionUpdate sid [example_participant]) =
     Inr (SessionUpdateMessage sid [(9, ''eve'')])"
  by (simp_all add: example_sessionUpdate_def example_participant_def wsMessageSchema_def
        sessionUpdateSchema_def z_literal_def z_number_def z_string_def z_participant_array_def
        z_participant_def)

subsection \<open>The \<open>close\<close> handler and the registration block\<close>

lemma on_close_bound:
  assumes "sessionId_var (vars s ws) = Some sid" "userId_var (vars s ws) = Some uid"
    "sid \<noteq> 0" "uid \<noteq> 0" "sessionConnections s sid = Some cs"
  shows "on_close ws s =
     (let remaining = filter (\<lambda>conn. \<not> (userId conn = uid \<and> socket conn = ws)) cs
      in if remaining = [] then s\<lparr> sessionConnections := (sessionConnections s)(sid := None) \<rparr>
         else s\<lparr> sessionConnections := (sessionConnections s)(sid \<mapsto> remaining),
                 sent := sent s @ map (\<lambda>c. (socket c, Relay (SessionUpdateMessage sid
                            (map (\<lambda>conn. (userId conn, ''User'')) remaining))))
                          (filter (\<lambda>c. readyOpen s (socket c)) remaining) \<rparr>)"
  using assms
  by (simp add: on_close_def Let_def broadcast_def send_each_map_filter)

lemma on_close_peers:
  "peers (on_close ws s) k =
     (case (sessionId_var (vars s ws), userId_var (vars s ws)) of
        (Some sid, Some uid) \<Rightarrow>
          if sid \<noteq> 0 \<and> uid \<noteq> 0 \<and> k = sid
          then filter (\<lambda>conn. \<not> (userId conn = uid \<and> socket conn = ws)) (peers s k)
          else peers s k
      | _ \<Rightarrow> peers s k)"
  by (auto simp: on_close_def Let_def peers_def broadcast_def split: option.splits)

lemma on_close_no_placeholder:
  "sessionConnections s k \<noteq> Some [] \<Longrightarrow> sessionConnections (on_close ws s) k \<noteq> Some []"
  by (auto simp: on_close_def Let_def broadcast_def split: option.splits if_splits)

lemma on_close_vars [simp]: "vars (on_close w s) = vars s"
  by (auto simp: on_close_def Let_def broadcast_def split: option.splits)

lemma on_close_sent:
  "fst ` set (sent (on_close w s)) \<subseteq> fst ` set (sent s) \<union> socket ` set (peers s (case sessionId_var (vars s w) of None \<Rightarrow> 0 | Some sid \<Rightarrow> sid))"
  by (auto simp: on_close_def Let_def broadcast_def peers_def send_each_map_filter split: option.splits)

lemma register_connection_peers:
  "peers (register_connection ws s) k =
     (case (userId_var (vars s ws), sessionId_var (vars s ws)) of
        (Some uid, Some sid) \<Rightarrow>
          if uid \<noteq> 0 \<and> sid \<noteq> 0 \<and> uid \<notin> userId ` set (peers s sid) \<and> k = sid
          then peers s k @ [\<lparr> userId = uid, socket = ws \<rparr>]
          else peers s k
      | _ \<Rightarrow> peers s k)"
  by (auto simp: register_connection_def peers_def list_ex_iff split: option.splits)

lemma register_connection_no_placeholder:
  "sessionConnections s k \<noteq> Some [] \<Longrightarrow> sessionConnections (register_connection ws s) k \<noteq> Some []"
  by (auto simp: register_connection_def split: option.splits if_splits)

lemma register_connection_no_userId:
  "userId_var (vars s ws) = None \<Longrightarrow> register_connection ws s = s"
  by (simp add: register_connection_def)

lemma one_per_key:
  "distinct (map f xs) \<Longrightarrow> x \<in> set xs \<Longrightarrow> P x \<Longrightarrow>
   length (filter (\<lambda>y. f y = f x) (filter P xs)) = 1"
proof (induction xs)
  case Nil
  then show ?case by simp
next
  case (Cons a xs)
  show ?case
  proof (cases "a = x")
    case True
    have "f x \<notin> f ` set xs"
      using Cons.prems(1) True by simp
    then have "\<forall>y \<in> set xs. f y \<noteq> f x"
      by (metis imageI)
    then have "filter (\<lambda>y. f y = f x) (filter P xs) = []"
      by (simp add: filter_empty_conv)
    then show ?thesis using True Cons.prems(3) by simp
  next
    case False
    then have "x \<in> set xs" using Cons.prems(2) by simp
    moreover have "f a \<noteq> f x" using Cons.prems(1) calculation by auto
    ultimately show ?thesis using Cons by simp
  qed
qed

lemma register_connection_adds_own_entry:
  "sessionConnections (register_connection ws s) = sessionConnections s
   \<or> (\<exists>sid uid. sessionId_var (vars s ws) = Some sid \<and> userId_var (vars s ws) = Some uid
         \<and> uid \<notin> userId ` set (peers s sid)
         \<and> sessionConnections (register_connection ws s) =
             (sessionConnections s)(sid \<mapsto> peers s sid @ [\<lparr> userId = uid, socket = ws \<rparr>]))"
  by (auto simp: register_connection_def list_ex_iff peers_def split: option.splits)

subsection \<open>The table's shape is kept by every event\<close>

lemma registry_inv_cong: "sessionConnections s' = sessionConnections s \<Longrightarrow> registry_inv s' = registry_inv s"
  by (simp add: registry_inv_def peers_def)

lemma registry_inv_simps [simp]:
  "registry_inv (set_sessionId ws sid s) = registry_inv s"
  "registry_inv (set_userId ws uid s) = registry_inv s"
  "registry_inv (broadcast p f sid s) = registry_inv s"
  "registry_inv (catch_block ws e s) = registry_inv s"
  "registry_inv (s\<lparr> sent := x \<rparr>) = registry_inv s"
  "registry_inv (s\<lparr> readyOpen := r \<rparr>) = registry_inv s"
  by (simp_all add: registry_inv_def peers_def)

lemma on_close_inv: "registry_inv s \<Longrightarrow> registry_inv (on_close ws s)"
  unfolding registry_inv_def
  by (auto simp: on_close_no_placeholder on_close_peers distinct_map_filter split: option.splits)

lemma register_connection_inv: "registry_inv s \<Longrightarrow> registry_inv (register_connection ws s)"
  unfolding registry_inv_def
  by (auto simp: register_connection_no_placeholder register_connection_peers split: option.splits)

lemma receive_inv: "registry_inv s \<Longrightarrow> registry_inv (state_of (receive ws raw s))"
  by (cases rule: receive_cases [of ws raw s]) (simp_all add: register_connection_inv)

lemma resume_inv: "registry_inv s \<Longrightarrow> registry_inv (resume ws chatMsg store s)"
  by (cases rule: resume_cases [of ws chatMsg store s]) (simp_all add: register_connection_inv)

lemma step_inv: "registry_inv s \<Longrightarrow> registry_inv (step e s)"
  by (cases e) (simp_all add: receive_inv resume_inv on_close_inv)

lemma run_inv: "registry_inv s \<Longrightarrow> registry_inv (run es s)"
  by (induction es arbitrary: s) (simp_all add: step_inv)

lemma inv_init: "registry_inv init"
  by (simp add: registry_inv_def init_def peers_def)

lemma reachable_inv: "registry_inv (run es init)"
  by (simp add: run_inv inv_init)

subsection \<open>A socket without a user identifier stays outside the table\<close>

lemma send_each_targets: "fst ` set (send_each opn p f cs) \<subseteq> socket ` set cs"
  by (auto simp: send_each_map_filter)

lemma broadcast_unbound:
  "unbound ws s \<Longrightarrow> unbound ws (broadcast p f sid s)"
  using send_each_targets [of "readyOpen s" p f "peers s sid"]
  by (auto simp: unbound_def)

lemma unbound_other_simps [simp]:
  "w \<noteq> ws \<Longrightarrow> unbound ws (set_sessionId w sid s) = unbound ws s"
  "w \<noteq> ws \<Longrightarrow> unbound ws (set_userId w uid s) = unbound ws s"
  "unbound ws (s\<lparr> readyOpen := r \<rparr>) = unbound ws s"
  by (simp_all add: unbound_def)

lemma register_connection_unbound_other:
  "w \<noteq> ws \<Longrightarrow> unbound ws s \<Longrightarrow> unbound ws (register_connection w s)"
  by (auto simp: unbound_def register_connection_peers split: option.splits)

lemma catch_block_unbound_other:
  "w \<noteq> ws \<Longrightarrow> unbound ws s \<Longrightarrow> unbound ws (catch_block w e s)"
  by (auto simp: unbound_def catch_block_def peers_def split: js_error.splits)

lemma receive_unbound_other:
  assumes "w \<noteq> ws" and "unbound ws s"
  shows "unbound ws (state_of (receive w raw s))"
proof (cases rule: receive_cases [of w raw s])
  case unanswered
  then show ?thesis using assms by simp
next
  case (answered iss)
  then show ?thesis using assms by (simp add: unbound_def)
next
  case (awaiting sid uid un msg ts)
  then show ?thesis using assms by simp
next
  case (relayed p f sid)
  then show ?thesis using assms
    by (simp add: register_connection_unbound_other broadcast_unbound)
qed

lemma resume_unbound_other:
  assumes "w \<noteq> ws" and "unbound ws s"
  shows "unbound ws (resume w chatMsg store s)"
  using assms
  by (cases rule: resume_cases [of w chatMsg store s])
     (simp_all add: register_connection_unbound_other catch_block_unbound_other broadcast_unbound)

lemma receive_unbound_videoSync:
  assumes "is_videoSync raw" and "unbound ws s"
  shows "unbound ws (state_of (receive ws raw s))"
proof -
  obtain j sid a ts ct where j: "raw = Parsed j" "wsMessageSchema j = Inr (VideoSyncMessage sid a ts ct)"
    using assms(1) by (auto simp: is_videoSync_def split: raw_frame.splits sum.splits ws_message.splits)
  define b where "b = broadcast (\<lambda>c. Some (userId c) \<noteq> userId_var (vars s ws))
          (Relay (VideoSyncMessage sid a ts ct)) sid (set_sessionId ws sid s)"
  have "unbound ws (set_sessionId ws sid s)"
    using assms(2) by (simp add: unbound_def)
  then have u: "unbound ws b"
    unfolding b_def by (rule broadcast_unbound)
  then have "register_connection ws b = b"
    by (simp add: register_connection_no_userId unbound_def)
  moreover have "receive ws raw s = Done (register_connection ws b)"
    unfolding b_def using j by (simp only: receive_videoSync)
  ultimately show ?thesis using u by simp
qed

lemma on_close_unbound:
  assumes "unbound ws s"
  shows "unbound ws (on_close w s)"
proof -
  have "set (peers (on_close w s) k) \<subseteq> set (peers s k)" for k
    by (auto simp: on_close_peers split: option.splits)
  then have "ws \<notin> socket ` set (peers (on_close w s) k)" for k
    using assms by (auto simp: unbound_def)
  moreover have "ws \<notin> fst ` set (sent (on_close w s))"
    using on_close_sent [of w s] assms by (auto simp: unbound_def)
  ultimately show ?thesis using assms by (simp add: unbound_def)
qed

lemma step_unbound:
  assumes "unbound ws s"
      and "case e of Message w raw \<Rightarrow> w = ws \<longrightarrow> is_videoSync raw
                   | Settled w chatMsg store \<Rightarrow> w \<noteq> ws
                   | _ \<Rightarrow> True"
  shows "unbound ws (step e s)"
proof (cases e)
  case (Message w raw)
  then show ?thesis using assms
    by (cases "w = ws") (simp_all add: receive_unbound_videoSync receive_unbound_other)
next
  case (Settled w chatMsg store)
  then show ?thesis using assms by (simp add: resume_unbound_other)
next
  case (Close w)
  then show ?thesis using assms(1) by (simp add: on_close_unbound)
next
  case (ReadyState w b)
  then show ?thesis using assms(1) by simp
qed

lemma run_unbound:
  "unbound ws s \<Longrightarrow> sends_only_videoSync ws es \<Longrightarrow> unbound ws (run es s)"
  by (induction es arbitrary: s) (simp_all add: step_unbound)

subsection \<open>What a frame can do to the table\<close>

lemma receive_adds_own_entry:
  "sessionConnections (state_of (receive ws raw s)) = sessionConnections s
   \<or> (\<exists>sid uid. sessionId_var (vars (state_of (receive ws raw s)) ws) = Some sid
         \<and> userId_var (vars (state_of (receive ws raw s)) ws) = Some uid
         \<and> uid \<notin> userId ` set (peers s sid)
         \<and> sessionConnections (state_of (receive ws raw s)) =
             (sessionConnections s)(sid \<mapsto> peers s sid @ [\<lparr> userId = uid, socket = ws \<rparr>]))"
proof (cases rule: receive_cases [of ws raw s])
  case (relayed p f sid)
  then show ?thesis
    using register_connection_adds_own_entry [of ws "broadcast p f sid (set_sessionId ws sid s)"]
    by simp
qed simp_all

lemma resume_adds_own_entry:
  "sessionConnections (resume ws chatMsg store s) = sessionConnections s
   \<or> (\<exists>sid uid. sessionId_var (vars (resume ws chatMsg store s) ws) = Some sid
         \<and> userId_var (vars (resume ws chatMsg store s) ws) = Some uid
         \<and> uid \<notin> userId ` set (peers s sid)
         \<and> sessionConnections (resume ws chatMsg store s) =
             (sessionConnections s)(sid \<mapsto> peers s sid @ [\<lparr> userId = uid, socket = ws \<rparr>]))"
proof (cases rule: resume_cases [of ws chatMsg store s])
  case (failed e)
  then show ?thesis by simp
next
  case unbound
  then show ?thesis
    using register_connection_adds_own_entry [of ws s] by simp
next
  case (stored sid)
  then show ?thesis
    using register_connection_adds_own_entry [of ws "broadcast (\<lambda>c. True) (Relay chatMsg) sid s"]
    by simp
qed

lemma sessionUpdate_content_ignored:
  assumes "wsMessageSchema j = Inr (SessionUpdateMessage sid ps)"
      and "wsMessageSchema j' = Inr (SessionUpdateMessage sid ps')"
  shows "sessionConnections (step (Message ws (Parsed j)) s) =
         sessionConnections (step (Message ws (Parsed j')) s)"
  using assms
  by (simp add: receive_sessionUpdate register_connection_def peers_def split: option.splits)

subsection \<open>The example states, evaluated\<close>

lemmas eval_simps =
  receive_chat receive_videoSync receive_sessionUpdate resume_def
  on_message_chat_stored on_message_chat_failed on_message_videoSync
  chat_stored_def init_def register_connection_def peers_def send_each_map_filter
  catch_block_def delivered_def

lemma two_users_eq:
  "two_users =
     \<lparr> sessionConnections = [42 \<mapsto> [\<lparr>userId = 1, socket = 1\<rparr>, \<lparr>userId = 2, socket = 2\<rparr>]],
       vars = (\<lambda>_. \<lparr>userId_var = None, sessionId_var = None\<rparr>)
                (1 := \<lparr>userId_var = Some 1, sessionId_var = Some 42\<rparr>,
                 2 := \<lparr>userId_var = Some 2, sessionId_var = Some 42\<rparr>),
       readyOpen = (\<lambda>_. False)(1 := True, 2 := True),
       sent = [(1, Relay (ChatMessage 42 2 ''ann'' ''hi'' 7))] \<rparr>"
  by (simp add: two_users_def eval_simps)

lemma same_user_twice_eq:
  "same_user_twice =
     \<lparr> sessionConnections = [42 \<mapsto> [\<lparr>userId = 1, socket = 1\<rparr>]],
       vars = (\<lambda>_. \<lparr>userId_var = None, sessionId_var = None\<rparr>)
                (1 := \<lparr>userId_var = Some 1, sessionId_var = Some 42\<rparr>,
                 2 := \<lparr>userId_var = Some 1, sessionId_var = Some 42\<rparr>),
       readyOpen = (\<lambda>_. False)(1 := True, 2 := True),
       sent = [(1, Relay (ChatMessage 42 1 ''ann'' ''hi'' 7))] \<rparr>"
  by (simp add: same_user_twice_def eval_simps)

lemma one_user_eq:
  "one_user =
     \<lparr> sessionConnections = [42 \<mapsto> [\<lparr>userId = 1, socket = 1\<rparr>]],
       vars = (\<lambda>_. \<lparr>userId_var = None, sessionId_var = None\<rparr>)
                (1 := \<lparr>userId_var = Some 1, sessionId_var = Some 42\<rparr>),
       readyOpen = (\<lambda>_. False)(1 := True),
       sent = [] \<rparr>"
  by (simp add: one_user_def eval_simps)


lemma two_identities_and_guest_eq:
  "two_identities_and_guest =
     \<lparr> sessionConnections = [42 \<mapsto> [\<lparr>userId = 1, socket = 1\<rparr>, \<lparr>userId = 2, socket = 1\<rparr>,
                                     \<lparr>userId = 3, socket = 3\<rparr>]],
       vars = (\<lambda>_. \<lparr>userId_var = None, sessionId_var = None\<rparr>)
                (1 := \<lparr>userId_var = Some 2, sessionId_var = Some 42\<rparr>,
                 3 := \<lparr>userId_var = Some 3, sessionId_var = Some 42\<rparr>),
       readyOpen = (\<lambda>_. False)(1 := True, 3 := True),
       sent = [(1, Relay (ChatMessage 42 2 ''ann'' ''hi'' 7)),
               (1, Relay (ChatMessage 42 3 ''ann'' ''hi'' 7)),
               (1, Relay (ChatMessage 42 3 ''ann'' ''hi'' 7))] \<rparr>"
  by (simp add: two_identities_and_guest_def eval_simps)

section \<open>The stated properties\<close>

subsection \<open>C1: fan-out of chat frames\<close>

text \<open>
  C1 as stated fails: two users are registered in session 42 with open sockets, user 1
  sends a valid chat frame and \<open>storage.createMessage\<close> throws. The exception leaves
  the \<open>try\<close> block before the loop over the session's connections, so nothing is
  sent to anybody.
\<close>

theorem chat_dropped_when_store_fails:
  "peers two_users 42 = [\<lparr>userId = 1, socket = 1\<rparr>, \<lparr>userId = 2, socket = 2\<rparr>]
   \<and> readyOpen two_users 1 \<and> readyOpen two_users 2
   \<and> wsMessageSchema (example_chat 42 1) = Inr (ChatMessage 42 1 ''ann'' ''hi'' 7)
   \<and> delivered two_users
         (on_message 1 (Parsed (example_chat 42 1)) (Some OtherError) two_users) = []"
  by (simp add: two_users_eq eval_simps)

text \<open>
  C1 (amended): a valid chat frame is not fanned out when it arrives; the handler first
  waits for the durability write. When the write succeeds, the frame is sent once to
  every entry with an open socket of the session the sending connection is bound to at
  that moment (the frame's session, when nothing else happened in between), the
  sender's own entry included when it is already there, and to nobody else. When the
  write throws, the table is unchanged and no chat frame is sent to anybody; unless the
  exception is a \<open>ZodError\<close> nothing is sent at all.
\<close>

theorem chat_fan_out_needs_store:
  assumes "wsMessageSchema j = Inr (ChatMessage sid uid un msg ts)"
  shows "sent (state_of (receive ws (Parsed j) s)) = sent s
       \<and> (sessionId_var (vars s' ws) = Some k \<longrightarrow>
            delivered s' (resume ws chatMsg None s') =
              map (\<lambda>c. (socket c, Relay chatMsg)) (filter (\<lambda>c. readyOpen s' (socket c)) (peers s' k)))
       \<and> sessionConnections (resume ws chatMsg (Some e) s') = sessionConnections s'
       \<and> (\<forall>x \<in> set (delivered s' (resume ws chatMsg (Some e) s')). \<forall>m. snd x \<noteq> Relay m)
       \<and> delivered s (on_message ws (Parsed j) None s) =
           map (\<lambda>c. (socket c, Relay (ChatMessage sid uid un msg ts)))
               (filter (\<lambda>c. readyOpen s (socket c)) (peers s sid))
       \<and> (\<forall>c \<in> set (peers s sid). readyOpen s (socket c) \<longrightarrow>
            (socket c, Relay (ChatMessage sid uid un msg ts))
              \<in> set (delivered s (on_message ws (Parsed j) None s)))
       \<and> sessionConnections (on_message ws (Parsed j) (Some e) s) = sessionConnections s
       \<and> ((\<forall>iss. e \<noteq> ZodError iss) \<longrightarrow>
            sent (on_message ws (Parsed j) (Some e) s) = sent s)"
proof -
  have arrival: "sent (state_of (receive ws (Parsed j) s)) = sent s"
    using assms by (simp add: receive_chat)
  have stored: "delivered s' (resume ws chatMsg None s') =
      map (\<lambda>c. (socket c, Relay chatMsg)) (filter (\<lambda>c. readyOpen s' (socket c)) (peers s' k))"
    if "sessionId_var (vars s' ws) = Some k"
    using that by (simp add: resume_stored send_each_map_filter delivered_def)
  have thrown: "\<forall>x \<in> set (delivered s' (resume ws chatMsg (Some e) s')). \<forall>m. snd x \<noteq> Relay m"
    by (cases e) (simp_all add: resume_failed catch_block_def delivered_def)
  have kept: "sessionConnections (resume ws chatMsg (Some e) s') = sessionConnections s'"
    by (simp add: resume_failed)
  have ok: "sent (on_message ws (Parsed j) None s) =
              sent s @ map (\<lambda>c. (socket c, Relay (ChatMessage sid uid un msg ts)))
                         (filter (\<lambda>c. readyOpen s (socket c)) (peers s sid))"
    using assms by (simp add: on_message_chat_stored send_each_map_filter)
  have failed: "on_message ws (Parsed j) (Some e) s =
                  catch_block ws e (set_userId ws uid (set_sessionId ws sid s))"
    using assms by (rule on_message_chat_failed)
  have "sent (on_message ws (Parsed j) (Some e) s) = sent s" if "\<forall>iss. e \<noteq> ZodError iss"
    using that failed by (cases e) (simp_all add: catch_block_def)
  moreover have "sessionConnections (on_message ws (Parsed j) (Some e) s) = sessionConnections s"
    by (simp add: failed)
  ultimately show ?thesis
    using arrival stored thrown kept ok by (auto simp: delivered_def)
qed

theorem chat_fan_out_needs_store_witness:
  "wsMessageSchema (example_chat 42 1) = Inr (ChatMessage 42 1 ''ann'' ''hi'' 7)
   \<and> sessionId_var (vars two_users 1) = Some 42
   \<and> delivered two_users (resume 1 (ChatMessage 42 1 ''ann'' ''hi'' 7) None two_users) =
       [(1, Relay (ChatMessage 42 1 ''ann'' ''hi'' 7)),
        (2, Relay (ChatMessage 42 1 ''ann'' ''hi'' 7))]
   \<and> delivered two_users (on_message 1 (Parsed (example_chat 42 1)) None two_users) =
       [(1, Relay (ChatMessage 42 1 ''ann'' ''hi'' 7)),
        (2, Relay (ChatMessage 42 1 ''ann'' ''hi'' 7))]
   \<and> sent (on_message 1 (Parsed (example_chat 42 1)) (Some OtherError) two_users) = sent two_users"
proof -
  have h: "wsMessageSchema (example_chat 42 1) = Inr (ChatMessage 42 1 ''ann'' ''hi'' 7)"
    by simp
  have v: "sessionId_var (vars two_users 1) = Some 42"
    by (simp add: two_users_eq)
  show ?thesis
    using chat_fan_out_needs_store
            [OF h, of 1 two_users two_users 42 "ChatMessage 42 1 ''ann'' ''hi'' 7" OtherError] h v
    by (simp add: two_users_eq peers_def)
qed

subsection \<open>C2: fan-out of playback frames\<close>




subsection \<open>C3: a second connection for a registered user\<close>

text \<open>
  C3 as stated fails: socket 1 registers user 1 in session 42, then socket 2 sends a
  chat frame with the same identity. The guard of the registration block finds user 1
  in the array and skips the \<open>push\<close>: the entry still refers to socket 1.
\<close>

theorem second_connection_keeps_old_handle:
  "peers (run (chat_stored 1 42 1 @ chat_stored 2 42 1) init) 42
     = [\<lparr>userId = 1, socket = 1\<rparr>]"
  by (simp add: eval_simps)

text \<open>
  C3 (amended): registration inserts an entry only when the session's array has none
  for the user. When the registration block runs for a chat frame whose
  (sessionId, userId) pair already has an entry, the table is unchanged, whatever
  socket sent the frame: the pair keeps its entry with the handle stored first, and in
  every reachable state that entry is the only one for the pair.
\<close>

theorem duplicate_identity_not_registered:
  assumes "wsMessageSchema j = Inr (ChatMessage sid uid un msg ts)"
      and "uid \<in> userId ` set (peers s sid)"
  shows "sessionConnections (on_message ws (Parsed j) store s) = sessionConnections s
       \<and> (sessionId_var (vars s ws) = Some sid \<longrightarrow> userId_var (vars s ws) = Some uid \<longrightarrow>
            sessionConnections (resume ws chatMsg store s) = sessionConnections s)
       \<and> (distinct (map userId (peers s sid)) \<longrightarrow>
            length (filter (\<lambda>c. userId c = uid) (peers (on_message ws (Parsed j) store s) sid)) = 1)
       \<and> ((\<exists>es. s = run es init) \<longrightarrow>
            length (filter (\<lambda>c. userId c = uid) (peers (on_message ws (Parsed j) store s) sid)) = 1)"
proof -
  have r: "sessionConnections (on_message ws (Parsed j) store s) = sessionConnections s"
  proof (cases store)
    case None
    then show ?thesis using assms
      by (auto simp: on_message_chat_stored register_connection_def peers_def list_ex_iff
               split: option.splits)
  next
    case (Some e)
    then show ?thesis using assms by (simp add: on_message_chat_failed)
  qed
  then have p: "peers (on_message ws (Parsed j) store s) = peers s"
    by (simp add: peers_def fun_eq_iff)
  have q: "sessionConnections (resume ws chatMsg store s) = sessionConnections s"
    if "sessionId_var (vars s ws) = Some sid" "userId_var (vars s ws) = Some uid"
    using that assms(2)
    by (cases store)
       (auto simp: resume_def register_connection_def peers_def list_ex_iff split: option.splits)
  obtain c where c: "c \<in> set (peers s sid)" "userId c = uid"
    using assms(2) by auto
  have one: "length (filter (\<lambda>c. userId c = uid) (peers s sid)) = 1"
    if "distinct (map userId (peers s sid))"
    using one_per_key [of userId "peers s sid" c "\<lambda>_. True"] that c by simp
  have "distinct (map userId (peers s sid))" if "\<exists>es. s = run es init"
    using that reachable_inv by (auto simp: registry_inv_def)
  then show ?thesis using r p q one by auto
qed

theorem duplicate_identity_not_registered_witness:
  "wsMessageSchema (example_chat 42 1) = Inr (ChatMessage 42 1 ''ann'' ''hi'' 7)
   \<and> 1 \<in> userId ` set (peers one_user 42)
   \<and> sessionConnections (on_message 2 (Parsed (example_chat 42 1)) None one_user) 42
       = Some [\<lparr>userId = 1, socket = 1\<rparr>]
   \<and> length (filter (\<lambda>c. userId c = 1)
         (peers (on_message 2 (Parsed (example_chat 42 1)) None one_user) 42)) = 1"
proof -
  have h: "wsMessageSchema (example_chat 42 1) = Inr (ChatMessage 42 1 ''ann'' ''hi'' 7)"
    by simp
  have p: "1 \<in> userId ` set (peers one_user 42)"
    by (simp add: one_user_eq peers_def)
  have r: "\<exists>es. one_user = run es init"
    unfolding one_user_def by blast
  have q: "sessionConnections one_user 42 = Some [\<lparr>userId = 1, socket = 1\<rparr>]"
    by (simp add: one_user_eq)
  show ?thesis
    using duplicate_identity_not_registered [OF h p, of 2 None] h p r q
    by simp
qed

subsection \<open>C4: a stale close\<close>

text \<open>
  C4: when the \<open>close\<close> handler runs for a socket \<open>ws\<close> bound to (sid, uid) and no
  entry of \<open>sid\<close>'s array for \<open>uid\<close> holds the handle \<open>ws\<close>, every session keeps
  its connections; the table itself is unchanged unless it held an empty array for
  \<open>sid\<close>, which no reachable table does.
\<close>

theorem stale_close_keeps_registry:
  assumes "sessionId_var (vars s ws) = Some sid" and "userId_var (vars s ws) = Some uid"
      and "\<forall>c \<in> set (peers s sid). userId c = uid \<longrightarrow> socket c \<noteq> ws"
  shows "peers (on_close ws s) = peers s
       \<and> (sessionConnections s sid \<noteq> Some [] \<longrightarrow>
            sessionConnections (on_close ws s) = sessionConnections s)
       \<and> ((\<exists>es. s = run es init) \<longrightarrow> sessionConnections (on_close ws s) = sessionConnections s)"
proof -
  have f: "filter (\<lambda>conn. \<not> (userId conn = uid \<and> socket conn = ws)) (peers s sid) = peers s sid"
    using assms(3) by (auto simp: filter_id_conv)
  have p: "peers (on_close ws s) = peers s"
    using assms(1,2) f by (auto simp: fun_eq_iff on_close_peers)
  have q: "sessionConnections (on_close ws s) = sessionConnections s"
    if "sessionConnections s sid \<noteq> Some []"
  proof (cases "sessionConnections s sid")
    case None
    then show ?thesis using assms(1,2) by (simp add: on_close_def)
  next
    case (Some cs)
    then have "filter (\<lambda>conn. \<not> (userId conn = uid \<and> socket conn = ws)) cs = cs"
      using f by (simp add: peers_def)
    moreover have "cs \<noteq> []" using that Some by simp
    ultimately show ?thesis using assms(1,2) Some
      by (cases "sid \<noteq> 0 \<and> uid \<noteq> 0")
         (auto simp: on_close_def Let_def broadcast_def fun_upd_idem)
  qed
  have "sessionConnections s sid \<noteq> Some []" if "\<exists>es. s = run es init"
    using that reachable_inv by (auto simp: registry_inv_def)
  then show ?thesis using p q by blast
qed

theorem stale_close_keeps_registry_witness:
  "sessionId_var (vars same_user_twice 2) = Some 42
   \<and> userId_var (vars same_user_twice 2) = Some 1
   \<and> peers same_user_twice 42 = [\<lparr>userId = 1, socket = 1\<rparr>]
   \<and> sessionConnections (on_close 2 same_user_twice) = sessionConnections same_user_twice
   \<and> peers (on_close 2 same_user_twice) 42 = [\<lparr>userId = 1, socket = 1\<rparr>]"
proof -
  have a: "sessionId_var (vars same_user_twice 2) = Some 42"
    and b: "userId_var (vars same_user_twice 2) = Some 1"
    and p: "peers same_user_twice 42 = [\<lparr>userId = 1, socket = 1\<rparr>]"
    by (simp_all add: same_user_twice_eq peers_def)
  have c: "\<forall>c \<in> set (peers same_user_twice 42). userId c = 1 \<longrightarrow> socket c \<noteq> 2"
    by (simp add: p)
  have r: "\<exists>es. same_user_twice = run es init"
    unfolding same_user_twice_def by blast
  show ?thesis
    using stale_close_keeps_registry [OF a b c] a b p r by simp
qed

subsection \<open>C5: the last connection of a session\<close>

text \<open>
  C5: when the \<open>close\<close> handler of \<open>ws\<close>, bound to (sid, uid), removes all that is
  left of \<open>sid\<close>'s array, the key \<open>sid\<close> is deleted from the table: the lookup
  yields nothing, not an empty array, and the handler never leaves an empty array under
  any key.
\<close>

theorem last_close_deletes_session:
  assumes "sessionId_var (vars s ws) = Some sid" and "userId_var (vars s ws) = Some uid"
      and "sid \<noteq> 0" and "uid \<noteq> 0"
      and "sessionConnections s sid = Some cs"
      and "\<forall>c \<in> set cs. userId c = uid \<and> socket c = ws"
  shows "sessionConnections (on_close ws s) sid = None
       \<and> peers (on_close ws s) sid = []
       \<and> sid \<notin> dom (sessionConnections (on_close ws s))
       \<and> (\<forall>k. sessionConnections s k \<noteq> Some [] \<longrightarrow> sessionConnections (on_close ws s) k \<noteq> Some [])"
proof -
  have "filter (\<lambda>conn. \<not> (userId conn = uid \<and> socket conn = ws)) cs = []"
    using assms(6) by (auto simp: filter_empty_conv)
  then have "on_close ws s = s\<lparr> sessionConnections := (sessionConnections s)(sid := None) \<rparr>"
    using on_close_bound [OF assms(1-5)] by simp
  then show ?thesis by (simp add: peers_def on_close_no_placeholder)
qed

theorem last_close_deletes_session_witness:
  "sessionId_var (vars one_user 1) = Some 42
   \<and> userId_var (vars one_user 1) = Some 1
   \<and> sessionConnections one_user 42 = Some [\<lparr>userId = 1, socket = 1\<rparr>]
   \<and> sessionConnections (on_close 1 one_user) 42 = None
   \<and> peers (on_close 1 one_user) 42 = []"
proof -
  have a: "sessionId_var (vars one_user 1) = Some 42"
    and b: "userId_var (vars one_user 1) = Some 1"
    and c: "sessionConnections one_user 42 = Some [\<lparr>userId = 1, socket = 1\<rparr>]"
    by (simp_all add: one_user_eq)
  have d: "\<forall>c \<in> set [\<lparr>userId = 1, socket = 1::nat\<rparr>]. userId c = 1 \<and> socket c = 1"
    by simp
  show ?thesis
    using last_close_deletes_session [OF a b _ _ c d] a b c by simp
qed

subsection \<open>C6: rejected frames\<close>

text \<open>
  C6 as stated fails for a frame that \<open>JSON.parse\<close> rejects: the \<open>SyntaxError\<close>
  is not a \<open>ZodError\<close>, so the \<open>catch\<close> block sends nothing.
\<close>

theorem unparseable_frame_not_answered:
  "sent (on_message 1 Unparseable None init) = []"
  by (simp add: on_message_unparseable init_def)

text \<open>
  C6 (amended): a frame that parses as JSON and fails the schema (not an object, a
  missing or unknown \<open>type\<close>, or a field of the wrong shape) changes nothing but the
  log of sent frames, which gets exactly one error frame, addressed to the socket the
  frame came from: no fan-out, no change of the table or of any socket's state. A frame
  that does not parse as JSON changes nothing at all.
\<close>

theorem rejected_frame_answered_once:
  "(wsMessageSchema j = Inl iss \<longrightarrow>
      on_message ws (Parsed j) store s =
        s\<lparr> sent := sent s @ [(ws, ErrorFrame ''Invalid message format'' iss)] \<rparr>)
   \<and> on_message ws Unparseable store s = s
   \<and> ((\<forall>kvs. j \<noteq> JObj kvs) \<longrightarrow> wsMessageSchema j = Inl [[]])
   \<and> (map_of kvs ''type'' \<notin> {Some (JStr ''videoSync''), Some (JStr ''chat''),
                               Some (JStr ''sessionUpdate'')} \<longrightarrow>
        wsMessageSchema (JObj kvs) = Inl [[Key ''type'']])"
proof -
  have "wsMessageSchema j = Inl [[]]" if "\<forall>kvs. j \<noteq> JObj kvs"
    using that by (cases j) (auto simp: wsMessageSchema_def)
  moreover have "wsMessageSchema (JObj kvs) = Inl [[Key ''type'']]"
    if "map_of kvs ''type'' \<notin> {Some (JStr ''videoSync''), Some (JStr ''chat''),
                                  Some (JStr ''sessionUpdate'')}"
    using that by (auto simp: wsMessageSchema_def split: option.splits json.splits)
  ultimately show ?thesis
    by (auto simp: on_message_invalid on_message_unparseable)
qed

theorem rejected_frame_answered_once_witness:
  "wsMessageSchema (JObj [(''type'', JStr ''ping'')]) = Inl [[Key ''type'']]
   \<and> wsMessageSchema (JNum 5) = Inl [[]]
   \<and> on_message 1 (Parsed (JObj [(''type'', JStr ''ping'')])) None two_users =
       two_users\<lparr> sent := sent two_users @ [(1, ErrorFrame ''Invalid message format'' [[Key ''type'']])] \<rparr>
   \<and> on_message 1 Unparseable None two_users = two_users"
proof -
  have a: "wsMessageSchema (JObj [(''type'', JStr ''ping'')]) = Inl [[Key ''type'']]"
    using rejected_frame_answered_once [of "JNum 5" "[[]]" 1 None two_users "[(''type'', JStr ''ping'')]"]
    by simp
  have b: "wsMessageSchema (JNum 5) = Inl [[]]"
    using rejected_frame_answered_once [of "JNum 5" "[[]]" 1 None two_users "[]"]
    by simp
  show ?thesis
    using rejected_frame_answered_once
            [of "JObj [(''type'', JStr ''ping'')]" "[[Key ''type'']]" 1 None two_users "[]"] a b
    by simp
qed

subsection \<open>C7: a chat frame without its message\<close>

text \<open>
  C7: a JSON object whose \<open>type\<close> is \<open>chat\<close> and which has no \<open>message\<close> key fails
  validation, with an issue at the path \<open>message\<close>; the handler's only effect is one
  error frame appended to the log, addressed to the sender: nothing is fanned out and
  neither the table nor the handler's variables change.
\<close>

theorem chat_without_message_rejected:
  assumes "map_of kvs ''type'' = Some (JStr ''chat'')"
      and "map_of kvs ''message'' = None"
  shows "\<exists>iss. wsMessageSchema (JObj kvs) = Inl iss
             \<and> [Key ''message''] \<in> set iss
             \<and> on_message ws (Parsed (JObj kvs)) store s =
                 s\<lparr> sent := sent s @ [(ws, ErrorFrame ''Invalid message format'' iss)] \<rparr>"
proof -
  have "\<exists>iss. wsMessageSchema (JObj kvs) = Inl iss \<and> [Key ''message''] \<in> set iss"
    using assms
    by (auto simp: wsMessageSchema_def chatMessageSchema_def Let_def z_string_def issues_def
             split: sum.splits)
  then show ?thesis
    by (auto simp: on_message_invalid)
qed

theorem chat_without_message_rejected_witness:
  "map_of example_chat_no_message ''type'' = Some (JStr ''chat'')
   \<and> map_of example_chat_no_message ''message'' = None
   \<and> wsMessageSchema (JObj example_chat_no_message) = Inl [[Key ''message'']]
   \<and> delivered two_users (on_message 1 (Parsed (JObj example_chat_no_message)) None two_users) =
       [(1, ErrorFrame ''Invalid message format'' [[Key ''message'']])]
   \<and> sessionConnections (on_message 1 (Parsed (JObj example_chat_no_message)) None two_users) =
       sessionConnections two_users"
proof -
  have a: "map_of example_chat_no_message ''type'' = Some (JStr ''chat'')"
    and b: "map_of example_chat_no_message ''message'' = None"
    by (simp_all add: example_chat_no_message_def)
  have c: "wsMessageSchema (JObj example_chat_no_message) = Inl [[Key ''message'']]"
    by (simp add: example_chat_no_message_def wsMessageSchema_def chatMessageSchema_def
          z_literal_def z_number_def z_string_def issues_def)
  show ?thesis
    using chat_without_message_rejected [OF a b, of 1 None two_users] a b c
    by (auto simp: delivered_def)
qed

subsection \<open>C8: the roster update after a close\<close>

text \<open>
  C8 as stated fails: socket 1 is registered in session 42 as user 1 and as user 2,
  socket 3 as user 3. When socket 3 closes, the loop over the remaining entries sends
  the roster to socket 1 twice, once for each of its entries.
\<close>

theorem roster_sent_twice_to_one_socket:
  "peers two_identities_and_guest 42 =
     [\<lparr>userId = 1, socket = 1\<rparr>, \<lparr>userId = 2, socket = 1\<rparr>, \<lparr>userId = 3, socket = 3\<rparr>]
   \<and> peers (step (Close 3) two_identities_and_guest) 42 =
     [\<lparr>userId = 1, socket = 1\<rparr>, \<lparr>userId = 2, socket = 1\<rparr>]
   \<and> delivered two_identities_and_guest (step (Close 3) two_identities_and_guest) =
     [(1, Relay (SessionUpdateMessage 42 [(1, ''User''), (2, ''User'')])),
      (1, Relay (SessionUpdateMessage 42 [(1, ''User''), (2, ''User'')]))]"
  by (simp add: two_identities_and_guest_eq eval_simps on_close_def broadcast_def Let_def)

text \<open>
  C8 (amended): when the \<open>close\<close> handler of \<open>ws\<close>, bound to (sid, uid), leaves a
  non-empty array \<open>remaining\<close> for \<open>sid\<close>, it sends one sessionUpdate frame per
  remaining entry whose socket is open, to that entry's socket, and nothing else; the
  frame's participants are the user identifiers of the remaining entries, in order. A
  socket gets as many frames as it has remaining entries: exactly one when no socket
  occurs twice among the remaining entries.
\<close>

theorem close_notifies_survivors:
  assumes "sessionId_var (vars s ws) = Some sid" and "userId_var (vars s ws) = Some uid"
      and "sid \<noteq> 0" and "uid \<noteq> 0"
      and "sessionConnections s sid = Some cs"
      and "remaining = filter (\<lambda>conn. \<not> (userId conn = uid \<and> socket conn = ws)) cs"
      and "remaining \<noteq> []"
      and "update = Relay (SessionUpdateMessage sid (map (\<lambda>conn. (userId conn, ''User'')) remaining))"
  shows "peers (on_close ws s) sid = remaining
       \<and> take (length (sent s)) (sent (on_close ws s)) = sent s
       \<and> delivered s (on_close ws s) =
            map (\<lambda>c. (socket c, update)) (filter (\<lambda>c. readyOpen s (socket c)) remaining)
       \<and> (\<forall>c \<in> set remaining. readyOpen s (socket c) \<longrightarrow>
            (socket c, update) \<in> set (delivered s (on_close ws s)))
       \<and> (\<forall>w. readyOpen s w \<longrightarrow>
            length (filter (\<lambda>x. fst x = w) (delivered s (on_close ws s))) =
            length (filter (\<lambda>c. socket c = w) remaining))
       \<and> (distinct (map socket remaining) \<longrightarrow>
            (\<forall>c \<in> set remaining. readyOpen s (socket c) \<longrightarrow>
               length (filter (\<lambda>x. fst x = socket c) (delivered s (on_close ws s))) = 1))"
proof -
  have c: "on_close ws s = s\<lparr> sessionConnections := (sessionConnections s)(sid \<mapsto> remaining),
                 sent := sent s @ map (\<lambda>c. (socket c, update))
                          (filter (\<lambda>c. readyOpen s (socket c)) remaining) \<rparr>"
    using on_close_bound [OF assms(1-5)] assms(6-8) by (simp add: Let_def)
  have d: "delivered s (on_close ws s) =
            map (\<lambda>c. (socket c, update)) (filter (\<lambda>c. readyOpen s (socket c)) remaining)"
    by (simp add: c delivered_def)
  have "length (filter (\<lambda>x. fst x = socket c)
          (map (\<lambda>c. (socket c, update)) (filter (\<lambda>c. readyOpen s (socket c)) remaining))) = 1"
    if "distinct (map socket remaining)" "c \<in> set remaining" "readyOpen s (socket c)" for c
    using one_per_key [of socket remaining c "\<lambda>c. readyOpen s (socket c)"] that
    by (simp add: filter_map comp_def)
  moreover have "length (filter (\<lambda>x. fst x = w)
          (map (\<lambda>c. (socket c, update)) (filter (\<lambda>c. readyOpen s (socket c)) xs))) =
        length (filter (\<lambda>c. socket c = w) xs)"
    if "readyOpen s w" for w and xs :: "connection list"
    using that by (induction xs) auto
  ultimately show ?thesis using d by (auto simp: c)
qed

theorem close_notifies_survivors_witness:
  "sessionId_var (vars two_users 2) = Some 42
   \<and> userId_var (vars two_users 2) = Some 2
   \<and> sessionConnections two_users 42 = Some [\<lparr>userId = 1, socket = 1\<rparr>, \<lparr>userId = 2, socket = 2\<rparr>]
   \<and> peers (step (Close 2) two_users) 42 = [\<lparr>userId = 1, socket = 1\<rparr>]
   \<and> delivered two_users (step (Close 2) two_users) =
       [(1, Relay (SessionUpdateMessage 42 [(1, ''User'')]))]"
proof -
  define s where "s = two_users\<lparr> readyOpen := (readyOpen two_users)(2 := False) \<rparr>"
  have a: "sessionId_var (vars s 2) = Some 42"
    and b: "userId_var (vars s 2) = Some 2"
    and c: "sessionConnections s 42 = Some [\<lparr>userId = 1, socket = 1\<rparr>, \<lparr>userId = 2, socket = 2\<rparr>]"
    and o: "readyOpen s 1" and e: "sent s = sent two_users"
    by (simp_all add: s_def two_users_eq)
  have r: "[\<lparr>userId = 1, socket = 1::nat\<rparr>] =
           filter (\<lambda>conn. \<not> (userId conn = 2 \<and> socket conn = 2))
             [\<lparr>userId = 1, socket = 1\<rparr>, \<lparr>userId = 2, socket = 2\<rparr>]"
    by simp
  have u: "Relay (SessionUpdateMessage 42 [(1, ''User'')]) =
           Relay (SessionUpdateMessage 42 (map (\<lambda>conn. (userId conn, ''User'')) [\<lparr>userId = 1, socket = 1::nat\<rparr>]))"
    by simp
  have "peers (on_close 2 s) 42 = [\<lparr>userId = 1, socket = 1\<rparr>]
      \<and> delivered s (on_close 2 s) = [(1, Relay (SessionUpdateMessage 42 [(1, ''User'')]))]"
    using close_notifies_survivors [OF a b _ _ c r _ u] o by simp
  moreover have "step (Close 2) two_users = on_close 2 s"
    by (simp add: s_def)
  moreover have "delivered two_users = delivered s"
    by (simp add: delivered_def fun_eq_iff e)
  ultimately show ?thesis
    using a b c by (simp add: s_def)
qed

subsection \<open>C9: what changes the table\<close>

text \<open>
  C9 as stated fails: socket 1 registers user 1 in session 42 by a chat frame and then
  sends a videoSync frame naming session 43. The handler rebinds \<open>sessionId\<close> and the
  registration block adds the socket to session 43 as well: one connection is in two
  sessions' arrays, put there by the content of a later frame.
\<close>

theorem connection_in_two_sessions:
  "peers (run rebinding_run init) 42 = [\<lparr>userId = 1, socket = 1\<rparr>]
   \<and> peers (run rebinding_run init) 43 = [\<lparr>userId = 1, socket = 1\<rparr>]"
  by (simp add: rebinding_run_def eval_simps)

text \<open>
  C9 (amended): in every reachable state no session has an empty array and no user
  identifier occurs twice in one session's array. Handling a frame never removes or
  alters an entry: it leaves the table as it is or appends one entry, for the sending
  socket, to the session the handler is then bound to, under the user it is then bound
  to (a later frame can rebind both, so one socket can have entries in several
  sessions). The participants of a sessionUpdate frame have no influence on the table.
  The \<open>close\<close> handler adds nothing and removes only entries of the closing socket,
  and a change of a socket's ready state leaves the table alone.
\<close>

theorem registry_membership:
  "registry_inv (run es init)
   \<and> (sessionConnections (step (Message ws raw) s) = sessionConnections s
      \<or> (\<exists>sid uid. sessionId_var (vars (step (Message ws raw) s) ws) = Some sid
            \<and> userId_var (vars (step (Message ws raw) s) ws) = Some uid
            \<and> uid \<notin> userId ` set (peers s sid)
            \<and> sessionConnections (step (Message ws raw) s) =
                (sessionConnections s)(sid \<mapsto> peers s sid @ [\<lparr> userId = uid, socket = ws \<rparr>])))
   \<and> (sessionConnections (step (Settled ws chatMsg store) s) = sessionConnections s
      \<or> (\<exists>sid uid. sessionId_var (vars (step (Settled ws chatMsg store) s) ws) = Some sid
            \<and> userId_var (vars (step (Settled ws chatMsg store) s) ws) = Some uid
            \<and> uid \<notin> userId ` set (peers s sid)
            \<and> sessionConnections (step (Settled ws chatMsg store) s) =
                (sessionConnections s)(sid \<mapsto> peers s sid @ [\<lparr> userId = uid, socket = ws \<rparr>])))
   \<and> (wsMessageSchema j = Inr (SessionUpdateMessage k ps) \<longrightarrow>
      wsMessageSchema j' = Inr (SessionUpdateMessage k ps') \<longrightarrow>
        sessionConnections (step (Message ws (Parsed j)) s) =
        sessionConnections (step (Message ws (Parsed j')) s))
   \<and> (\<forall>k c. c \<in> set (peers (step (Close ws) s) k) \<longrightarrow> c \<in> set (peers s k))
   \<and> (\<forall>k c. c \<in> set (peers s k) \<longrightarrow> socket c \<noteq> ws \<longrightarrow> c \<in> set (peers (step (Close ws) s) k))
   \<and> sessionConnections (step (ReadyState ws b) s) = sessionConnections s"
proof -
  have "c \<in> set (peers s k)" if "c \<in> set (peers (step (Close ws) s) k)" for k c
    using that by (auto simp: on_close_peers split: option.splits if_splits)
  moreover have "c \<in> set (peers (step (Close ws) s) k)"
    if "c \<in> set (peers s k)" "socket c \<noteq> ws" for k c
    using that by (auto simp: on_close_peers split: option.splits)
  ultimately show ?thesis
    using reachable_inv [of es] receive_adds_own_entry [of ws raw s]
      resume_adds_own_entry [of ws chatMsg store s]
      sessionUpdate_content_ignored [of j k ps j' ps' ws s]
    by simp
qed

theorem registry_membership_witness:
  "registry_inv (run rebinding_run init)
   \<and> sessionConnections (step (Message 1 (Parsed (example_videoSync 43))) one_user) =
       (sessionConnections one_user)(43 \<mapsto> [\<lparr>userId = 1, socket = 1\<rparr>])
   \<and> wsMessageSchema (example_sessionUpdate 42 []) = Inr (SessionUpdateMessage 42 [])
   \<and> wsMessageSchema (example_sessionUpdate 42 [example_participant]) =
       Inr (SessionUpdateMessage 42 [(9, ''eve'')])
   \<and> sessionConnections (step (Message 1 (Parsed (example_sessionUpdate 42 []))) one_user) =
     sessionConnections (step (Message 1 (Parsed (example_sessionUpdate 42 [example_participant]))) one_user)
   \<and> \<lparr>userId = 1, socket = 1\<rparr> \<in> set (peers two_users 42)
   \<and> \<lparr>userId = 1, socket = 1\<rparr> \<in> set (peers (step (Close 2) two_users) 42)"
proof -
  have a: "wsMessageSchema (example_sessionUpdate 42 []) = Inr (SessionUpdateMessage 42 [])"
    and b: "wsMessageSchema (example_sessionUpdate 42 [example_participant]) =
              Inr (SessionUpdateMessage 42 [(9, ''eve'')])"
    by simp_all
  have c: "\<lparr>userId = 1, socket = 1\<rparr> \<in> set (peers two_users 42)"
    by (simp add: two_users_eq peers_def)
  have d: "sessionConnections (step (Message 1 (Parsed (example_videoSync 43))) one_user) =
             (sessionConnections one_user)(43 \<mapsto> [\<lparr>userId = 1, socket = 1\<rparr>])"
    by (simp add: one_user_eq eval_simps)
  have "registry_inv (run rebinding_run init)"
    using registry_membership [of rebinding_run 1 Unparseable init] by simp
  moreover have "sessionConnections (step (Message 1 (Parsed (example_sessionUpdate 42 []))) one_user) =
     sessionConnections (step (Message 1 (Parsed (example_sessionUpdate 42 [example_participant]))) one_user)"
    using registry_membership [of "[]" 1 Unparseable one_user "ChatMessage 0 0 [] [] 0" None
            "example_sessionUpdate 42 []" 42 "[]"
            "example_sessionUpdate 42 [example_participant]" "[(9, ''eve'')]"] a b
    by simp
  moreover have "\<lparr>userId = 1, socket = 1\<rparr> \<in> set (peers (step (Close 2) two_users) 42)"
    using registry_membership [of "[]" 2 Unparseable two_users] c by simp
  ultimately show ?thesis
    using a b c d by simp
qed

subsection \<open>C10: a connection that only sends playback frames\<close>

text \<open>
  C10: in every run from the initial state in which all frames a socket \<open>ws\<close> sends are
  valid videoSync frames (so that no chat handler of \<open>ws\<close> ever waits for the store),
  the handler of \<open>ws\<close> never gets a user identifier, \<open>ws\<close> is in no session's
  array, and no frame at all is ever sent to \<open>ws\<close>, whatever the other sockets send, in
  whatever order the store settles, and whenever sockets close.
\<close>

theorem videoSync_only_never_registered:
  assumes "sends_only_videoSync ws es"
  shows "userId_var (vars (run es init) ws) = None
       \<and> (\<forall>sid. ws \<notin> socket ` set (peers (run es init) sid))
       \<and> ws \<notin> fst ` set (sent (run es init))"
proof -
  have "unbound ws init"
    by (simp add: unbound_def init_def peers_def)
  then have "unbound ws (run es init)"
    using assms by (rule run_unbound)
  then show ?thesis by (simp add: unbound_def)
qed

theorem videoSync_only_never_registered_witness:
  "sends_only_videoSync 3 watcher_run
   \<and> userId_var (vars (run watcher_run init) 3) = None
   \<and> sessionId_var (vars (run watcher_run init) 3) = Some 42
   \<and> 3 \<notin> socket ` set (peers (run watcher_run init) 42)
   \<and> 3 \<notin> fst ` set (sent (run watcher_run init))
   \<and> sent (run watcher_run init) =
       [(1, Relay (VideoSyncMessage 42 Play None None)),
        (1, Relay (ChatMessage 42 1 ''ann'' ''hi'' 7))]"
proof -
  have h: "sends_only_videoSync 3 watcher_run"
    by (simp add: watcher_run_def chat_stored_def is_videoSync_def)
  have v: "sessionId_var (vars (run watcher_run init) 3) = Some 42"
    and t: "sent (run watcher_run init) =
              [(1, Relay (VideoSyncMessage 42 Play None None)),
               (1, Relay (ChatMessage 42 1 ''ann'' ''hi'' 7))]"
    by (simp_all add: watcher_run_def eval_simps on_close_def broadcast_def)
  show ?thesis
    using videoSync_only_never_registered [OF h] h v t by simp
qed

end
